theory Spec2Isabelle
  imports Complex_Main
begin

section \<open>Order aggregate\<close>

text \<open>
  The order model of \<^verbatim>\<open>models/Order\<close> (the schema is the last part of
  \<^verbatim>\<open>src/server/middleware/validation.ts\<close>) and the types of
  \<^verbatim>\<open>src/server/types/index.ts\<close>. The string unions \<^verbatim>\<open>OrderStatus\<close>,
  \<^verbatim>\<open>PaymentStatus\<close> and \<^verbatim>\<open>PaymentMethod\<close> are datatypes; a JavaScript
  \<^verbatim>\<open>number\<close> holding an amount is a \<open>real\<close> (rounding of doubles is not modelled).
  The \<^verbatim>\<open>enum\<close> validators of the schema are the datatypes; its other validators and
  its \<^verbatim>\<open>trim\<close> setters are defined below. The \<^verbatim>\<open>updatedAt\<close> stamp is not
  tracked.
\<close>

datatype OrderStatus = Pending | Confirmed | Preparing | Ready | Served | Cancelled

datatype PaymentStatus = PaymentPending | Paid | Failed | Refunded | Partial

datatype PaymentMethod = Cash | Card | Upi | Wallet | Netbanking




text \<open>
  A JavaScript \<^verbatim>\<open>Date\<close> read in the server's local time zone, by the fields its getters
  return (\<^verbatim>\<open>getMonth\<close> counts from 0). Dates are compared field by field, which is the
  order of the instants as long as the fields are in range.
\<close>

record Date =
  fullYear :: nat
  month :: nat
  dayOfMonth :: nat
  hours :: nat
  minutes :: nat
  seconds :: nat
  milliseconds :: nat

definition timeOfDay :: "Date \<Rightarrow> nat" where
  "timeOfDay d = ((hours d * 60 + minutes d) * 60 + seconds d) * 1000 + milliseconds d"

definition dateLe :: "Date \<Rightarrow> Date \<Rightarrow> bool" where
  "dateLe a b \<longleftrightarrow>
     fullYear a < fullYear b \<or>
     (fullYear a = fullYear b \<and>
       (month a < month b \<or>
        (month a = month b \<and>
          (dayOfMonth a < dayOfMonth b \<or>
           (dayOfMonth a = dayOfMonth b \<and> timeOfDay a \<le> timeOfDay b)))))"

definition setHours :: "Date \<Rightarrow> nat \<Rightarrow> nat \<Rightarrow> nat \<Rightarrow> nat \<Rightarrow> Date" where
  "setHours d h m s msec = d\<lparr>hours := h, minutes := m, seconds := s, milliseconds := msec\<rparr>"

record OrderItem =
  menuItemId :: string
  name :: string
  price :: real
  quantity :: real
  customizations :: "string list"
  itemNotes :: "string option"

text \<open>
  \<open>orderNumber\<close> is the empty string while it is unset: the only test the code makes of an
  unset number is \<^verbatim>\<open>!this.orderNumber\<close>, which treats \<^verbatim>\<open>undefined\<close> and
  \<^verbatim>\<open>''\<close> alike.
\<close>

record Order =
  orderNumber :: string
  restaurantId :: string
  tableId :: "string option"
  customerId :: "string option"
  items :: "OrderItem list"
  subtotal :: real
  tax :: real
  discount :: real
  total :: real
  status :: OrderStatus
  paymentStatus :: PaymentStatus
  paymentMethod :: "PaymentMethod option"
  orderNotes :: "string option"
  createdBy :: string
  createdAt :: Date

text \<open>
  The body of an update (\<^verbatim>\<open>Partial<IOrder>\<close>): every field is optional, and
  \<^verbatim>\<open>findByIdAndUpdate\<close> sets exactly the fields that are present.
\<close>

record OrderPatch =
  setOrderNumber :: "string option"
  setRestaurantId :: "string option"
  setTableId :: "string option"
  setCustomerId :: "string option"
  setItems :: "OrderItem list option"
  setSubtotal :: "real option"
  setTax :: "real option"
  setDiscount :: "real option"
  setTotal :: "real option"
  setStatus :: "OrderStatus option"
  setPaymentStatus :: "PaymentStatus option"
  setPaymentMethod :: "PaymentMethod option"
  setNotes :: "string option"
  setCreatedBy :: "string option"

definition emptyPatch :: OrderPatch where
  "emptyPatch = \<lparr>setOrderNumber = None, setRestaurantId = None, setTableId = None,
     setCustomerId = None, setItems = None, setSubtotal = None, setTax = None,
     setDiscount = None, setTotal = None, setStatus = None, setPaymentStatus = None,
     setPaymentMethod = None, setNotes = None, setCreatedBy = None\<rparr>"

definition orElse :: "'a option \<Rightarrow> 'a \<Rightarrow> 'a" where
  "orElse v d = (case v of None \<Rightarrow> d | Some x \<Rightarrow> x)"

definition orKeep :: "'a option \<Rightarrow> 'a option \<Rightarrow> 'a option" where
  "orKeep v d = (case v of None \<Rightarrow> d | Some x \<Rightarrow> Some x)"

definition applyPatch :: "OrderPatch \<Rightarrow> Order \<Rightarrow> Order" where
  "applyPatch p doc = doc\<lparr>
     orderNumber := orElse (setOrderNumber p) (orderNumber doc),
     restaurantId := orElse (setRestaurantId p) (restaurantId doc),
     tableId := orKeep (setTableId p) (tableId doc),
     customerId := orKeep (setCustomerId p) (customerId doc),
     items := orElse (setItems p) (items doc),
     subtotal := orElse (setSubtotal p) (subtotal doc),
     tax := orElse (setTax p) (tax doc),
     discount := orElse (setDiscount p) (discount doc),
     total := orElse (setTotal p) (total doc),
     status := orElse (setStatus p) (status doc),
     paymentStatus := orElse (setPaymentStatus p) (paymentStatus doc),
     paymentMethod := orKeep (setPaymentMethod p) (paymentMethod doc),
     orderNotes := orKeep (setNotes p) (orderNotes doc),
     createdBy := orElse (setCreatedBy p) (createdBy doc)\<rparr>"

subsection \<open>The collection\<close>

text \<open>
  The orders collection: documents keyed by \<^verbatim>\<open>_id\<close>. The queries are the ones the
  controllers and the schema hooks issue. An id is the string of 24 hexadecimal digits
  of the document, compared as it is written: the other forms that the library casts to
  an id, and the \<^verbatim>\<open>CastError\<close> of a query for a string that is no id, are outside
  the model.
\<close>

type_synonym collection = "(string \<times> Order) list"

definition findById :: "collection \<Rightarrow> string \<Rightarrow> Order option" where
  "findById db i = map_of db i"

definition findOne :: "collection \<Rightarrow> string \<Rightarrow> string \<Rightarrow> Order option" where
  "findOne db i rid =
     (case map_of db i of
        None \<Rightarrow> None
      | Some doc \<Rightarrow> if restaurantId doc = rid then Some doc else None)"

definition countDocuments :: "collection \<Rightarrow> (Order \<Rightarrow> bool) \<Rightarrow> nat" where
  "countDocuments db q = length (filter q (map snd db))"

fun replaceDoc :: "string \<Rightarrow> Order \<Rightarrow> collection \<Rightarrow> collection" where
  "replaceDoc i doc [] = []"
| "replaceDoc i doc ((k, d) # db) =
     (if k = i then (k, doc) # db else (k, d) # replaceDoc i doc db)"

fun removeDoc :: "string \<Rightarrow> collection \<Rightarrow> collection" where
  "removeDoc i [] = []"
| "removeDoc i ((k, d) # db) = (if k = i then db else (k, d) # removeDoc i db)"

text \<open>
  \<^verbatim>\<open>findByIdAndDelete\<close> removes the document and returns it.
\<close>

definition findByIdAndDelete :: "collection \<Rightarrow> string \<Rightarrow> collection \<times> Order option" where
  "findByIdAndDelete db i =
     (case map_of db i of
        None \<Rightarrow> (db, None)
      | Some doc \<Rightarrow> (removeDoc i db, Some doc))"

text \<open>
  The index on \<open>orderNumber\<close> is unique: a write that would give a document the number
  of another document is refused by the server.
\<close>

definition numberTaken :: "collection \<Rightarrow> string \<Rightarrow> string \<Rightarrow> bool" where
  "numberTaken db i n = list_ex (\<lambda>(k, d). k \<noteq> i \<and> orderNumber d = n) db"

text \<open>
  What a query or a write can throw, besides the \<^verbatim>\<open>ErrorResponse\<close> (message and
  status) that a handler makes itself: the library's \<^verbatim>\<open>ValidationError\<close> with its
  message, and the server's duplicate key error (E11000) for the order number held
  twice, of which the message is abbreviated here.
\<close>

datatype error = ErrorResponse string nat | ValidationError string | DuplicateKeyError string

fun errorMessage :: "error \<Rightarrow> string" where
  "errorMessage (ErrorResponse m c) = m"
| "errorMessage (ValidationError m) = m"
| "errorMessage (DuplicateKeyError n) = ''E11000 duplicate key error: orderNumber '' @ n"

subsection \<open>Strings of numbers\<close>

definition digitChar :: "nat \<Rightarrow> char" where
  "digitChar n = ''0123456789'' ! n"

fun toStringNat :: "nat \<Rightarrow> string" where
  "toStringNat n =
     (if n < 10 then [digitChar n] else toStringNat (n div 10) @ [digitChar (n mod 10)])"

declare toStringNat.simps [simp del]

definition padStart :: "nat \<Rightarrow> char \<Rightarrow> string \<Rightarrow> string" where
  "padStart n c s = replicate (n - length s) c @ s"

definition sliceLast :: "nat \<Rightarrow> string \<Rightarrow> string" where
  "sliceLast n s = drop (length s - n) s"

subsection \<open>Setters and validators of the schema\<close>

text \<open>
  The \<^verbatim>\<open>trim: true\<close> setters of the schema remove white space at both ends of
  \<open>orderNumber\<close>, of the notes, and of the name, the customizations and the notes of an
  item, before anything is validated or written. Strings are taken to be ASCII: white
  space is the ASCII white space, and a length counts characters.
\<close>

definition isWhiteSpace :: "char \<Rightarrow> bool" where
  "isWhiteSpace c \<longleftrightarrow> c \<in> set [CHR '' '', CHR 0x09, CHR 0x0A, CHR 0x0B, CHR 0x0C, CHR 0x0D]"

definition trim :: "string \<Rightarrow> string" where
  "trim s = rev (dropWhile isWhiteSpace (rev (dropWhile isWhiteSpace s)))"

definition castItem :: "OrderItem \<Rightarrow> OrderItem" where
  "castItem item = item\<lparr>name := trim (name item),
     customizations := map trim (customizations item),
     itemNotes := map_option trim (itemNotes item)\<rparr>"

definition castOrder :: "Order \<Rightarrow> Order" where
  "castOrder data = data\<lparr>orderNumber := trim (orderNumber data),
     items := map castItem (items data),
     orderNotes := map_option trim (orderNotes data)\<rparr>"

definition castPatch :: "OrderPatch \<Rightarrow> OrderPatch" where
  "castPatch p = p\<lparr>setOrderNumber := map_option trim (setOrderNumber p),
     setItems := map_option (map castItem) (setItems p),
     setNotes := map_option trim (setNotes p)\<rparr>"

text \<open>
  The validators, field by field in the order of the schema, each with the message the
  schema gives it. A failure is the path and the message; the library's error carries
  them as \<^verbatim>\<open>path: message\<close>, joined by commas after a prefix. An empty string does
  not pass \<^verbatim>\<open>required\<close>; an empty list of items does not pass the validator of
  \<open>items\<close>.
\<close>

type_synonym failures = "(string \<times> string) list"

definition requiredString :: "string \<Rightarrow> string \<Rightarrow> string \<Rightarrow> failures" where
  "requiredString path msg v = (if v = [] then [(path, msg)] else [])"

definition minNumber :: "string \<Rightarrow> string \<Rightarrow> real \<Rightarrow> real \<Rightarrow> failures" where
  "minNumber path msg bound v = (if v < bound then [(path, msg)] else [])"

definition maxLength :: "string \<Rightarrow> string \<Rightarrow> nat \<Rightarrow> string option \<Rightarrow> failures" where
  "maxLength path msg n v =
     (case v of
        None \<Rightarrow> []
      | Some text \<Rightarrow> if length text > n then [(path, msg)] else [])"

definition itemFailures :: "string \<Rightarrow> OrderItem \<Rightarrow> failures" where
  "itemFailures path item =
     requiredString (path @ ''.menuItemId'') ''Menu item ID is required'' (menuItemId item)
     @ requiredString (path @ ''.name'') ''Item name is required'' (name item)
     @ minNumber (path @ ''.price'') ''Price cannot be negative'' 0 (price item)
     @ minNumber (path @ ''.quantity'') ''Quantity must be at least 1'' 1 (quantity item)
     @ maxLength (path @ ''.notes'') ''Notes cannot exceed 200 characters'' 200 (itemNotes item)"

fun itemsFailuresFrom :: "nat \<Rightarrow> OrderItem list \<Rightarrow> failures" where
  "itemsFailuresFrom k [] = []"
| "itemsFailuresFrom k (item # rest) =
     itemFailures (''items.'' @ toStringNat k) item @ itemsFailuresFrom (Suc k) rest"

definition itemsFailures :: "OrderItem list \<Rightarrow> failures" where
  "itemsFailures xs =
     (if xs = [] then [(''items'', ''Order must contain at least one item'')]
      else itemsFailuresFrom 0 xs)"

definition documentFailures :: "Order \<Rightarrow> failures" where
  "documentFailures doc =
     requiredString ''orderNumber'' ''Order number is required'' (orderNumber doc)
     @ requiredString ''restaurantId'' ''Restaurant ID is required'' (restaurantId doc)
     @ itemsFailures (items doc)
     @ minNumber ''subtotal'' ''Subtotal cannot be negative'' 0 (subtotal doc)
     @ minNumber ''tax'' ''Tax cannot be negative'' 0 (tax doc)
     @ minNumber ''discount'' ''Discount cannot be negative'' 0 (discount doc)
     @ minNumber ''total'' ''Total cannot be negative'' 0 (total doc)
     @ maxLength ''notes'' ''Notes cannot exceed 500 characters'' 500 (orderNotes doc)
     @ requiredString ''createdBy'' ''Created by user ID is required'' (createdBy doc)"

text \<open>
  The update validators (\<^verbatim>\<open>runValidators: true\<close>) are the same validators, run on the
  fields that the body sets.
\<close>

definition whenSet :: "'a option \<Rightarrow> ('a \<Rightarrow> failures) \<Rightarrow> failures" where
  "whenSet v check = (case v of None \<Rightarrow> [] | Some x \<Rightarrow> check x)"

definition patchFailures :: "OrderPatch \<Rightarrow> failures" where
  "patchFailures p =
     whenSet (setOrderNumber p) (requiredString ''orderNumber'' ''Order number is required'')
     @ whenSet (setRestaurantId p) (requiredString ''restaurantId'' ''Restaurant ID is required'')
     @ whenSet (setItems p) itemsFailures
     @ whenSet (setSubtotal p) (minNumber ''subtotal'' ''Subtotal cannot be negative'' 0)
     @ whenSet (setTax p) (minNumber ''tax'' ''Tax cannot be negative'' 0)
     @ whenSet (setDiscount p) (minNumber ''discount'' ''Discount cannot be negative'' 0)
     @ whenSet (setTotal p) (minNumber ''total'' ''Total cannot be negative'' 0)
     @ maxLength ''notes'' ''Notes cannot exceed 500 characters'' 500 (setNotes p)
     @ whenSet (setCreatedBy p) (requiredString ''createdBy'' ''Created by user ID is required'')"

fun joinWith :: "string \<Rightarrow> string list \<Rightarrow> string" where
  "joinWith sep [] = []"
| "joinWith sep [x] = x"
| "joinWith sep (x # y # ys) = x @ sep @ joinWith sep (y # ys)"

definition validationMessage :: "string \<Rightarrow> failures \<Rightarrow> string" where
  "validationMessage prefix fs =
     prefix @ joinWith '', '' (map (\<lambda>(path, msg). path @ '': '' @ msg) fs)"

text \<open>
  \<^verbatim>\<open>findByIdAndUpdate(id, body, {new: true, runValidators: true})\<close>: the body is cast
  and validated before the query is sent; then the fields of the body are written into
  the document, if there is one, and the updated document is returned. It is a query,
  and the schema's \<^verbatim>\<open>pre('save')\<close> hooks do not run for it.
\<close>

definition findByIdAndUpdate ::
  "collection \<Rightarrow> string \<Rightarrow> OrderPatch \<Rightarrow> error + (collection \<times> Order option)" where
  "findByIdAndUpdate db i p =
     (let u = castPatch p in
      if patchFailures u \<noteq> [] then
        Inl (ValidationError (validationMessage ''Validation failed: '' (patchFailures u)))
      else
        (case map_of db i of
           None \<Rightarrow> Inr (db, None)
         | Some doc \<Rightarrow>
             (case setOrderNumber u of
                None \<Rightarrow> Inr (replaceDoc i (applyPatch u doc) db, Some (applyPatch u doc))
              | Some n \<Rightarrow>
                  if numberTaken db i n then Inl (DuplicateKeyError n)
                  else Inr (replaceDoc i (applyPatch u doc) db, Some (applyPatch u doc)))))"

subsection \<open>The schema's pre-save hooks\<close>

text \<open>
  \<^verbatim>\<open>OrderSchema.pre('save', ...)\<close>, first hook: the order number. \<open>now\<close> is
  \<^verbatim>\<open>new Date()\<close>; \<open>isNew\<close> is the document's \<^verbatim>\<open>isNew\<close> flag. The two
  \<^verbatim>\<open>setHours\<close> calls mutate the same date, which stays on the same day.
\<close>

definition todayQuery :: "Date \<Rightarrow> string \<Rightarrow> Order \<Rightarrow> bool" where
  "todayQuery now rid doc \<longleftrightarrow>
     (let todayStart = setHours now 0 0 0 0;
          todayEnd = setHours todayStart 23 59 59 999
      in dateLe todayStart (createdAt doc) \<and> dateLe (createdAt doc) todayEnd
         \<and> restaurantId doc = rid)"

definition preSaveOrderNumber :: "Date \<Rightarrow> collection \<Rightarrow> bool \<Rightarrow> Order \<Rightarrow> Order" where
  "preSaveOrderNumber now db isNew this =
     (if isNew \<and> orderNumber this = [] then
        (let year = sliceLast 2 (toStringNat (fullYear now));
             month = padStart 2 (CHR ''0'') (toStringNat (month now + 1));
             day = padStart 2 (CHR ''0'') (toStringNat (dayOfMonth now));
             count = countDocuments db (todayQuery now (restaurantId this))
         in this\<lparr>orderNumber :=
              year @ month @ day @ ''-'' @ padStart 4 (CHR ''0'') (toStringNat (count + 1))\<rparr>)
      else this)"

text \<open>
  Second hook: the totals. \<open>modified\<close> is the set of paths for which
  \<^verbatim>\<open>this.isModified(path)\<close> is true.
\<close>

definition preSaveTotal :: "string set \<Rightarrow> Order \<Rightarrow> Order" where
  "preSaveTotal modified this =
     (if ''items'' \<in> modified \<or> ''subtotal'' \<in> modified \<or> ''tax'' \<in> modified
         \<or> ''discount'' \<in> modified then
        (let this1 = (if ''items'' \<in> modified
                      then this\<lparr>subtotal :=
                             foldl (\<lambda>sum item. sum + price item * quantity item) 0 (items this)\<rparr>
                      else this)
         in this1\<lparr>total := subtotal this1 + tax this1 - discount this1\<rparr>)
      else this)"


text \<open>
  \<^verbatim>\<open>Order.create(data)\<close>: a new document, of which every path that the data sets counts
  as modified, saved for the first time under a fresh id \<open>i\<close>. The library validates the
  document first (its built-in hook precedes the hooks of the schema), then the two
  hooks run, then the document is inserted with its creation time.
\<close>

definition allPaths :: "string set" where
  "allPaths = {''orderNumber'', ''restaurantId'', ''tableId'', ''customerId'', ''items'',
     ''subtotal'', ''tax'', ''discount'', ''total'', ''status'', ''paymentStatus'',
     ''paymentMethod'', ''notes'', ''createdBy''}"

definition create :: "Date \<Rightarrow> collection \<Rightarrow> string \<Rightarrow> Order \<Rightarrow> error + (collection \<times> Order)" where
  "create now db i data =
     (let doc = castOrder data in
      if documentFailures doc \<noteq> [] then
        Inl (ValidationError (validationMessage ''Order validation failed: '' (documentFailures doc)))
      else
        (let doc1 = preSaveOrderNumber now db True doc;
             doc2 = preSaveTotal allPaths doc1;
             doc3 = doc2\<lparr>createdAt := now\<rparr>
         in if numberTaken db i (orderNumber doc3) then Inl (DuplicateKeyError (orderNumber doc3))
            else Inr (db @ [(i, doc3)], doc3)))"

section \<open>Order controller\<close>



text \<open>
  \<open>createOrder\<close>: the body with \<^verbatim>\<open>createdBy\<close> and \<^verbatim>\<open>restaurantId\<close> taken from
  \<^verbatim>\<open>req.user\<close>, handed to \<^verbatim>\<open>Order.create\<close>; \<open>i\<close> is the id that the new document
  gets. An error thrown by the library goes to \<^verbatim>\<open>next\<close> as it is.
\<close>

definition createOrder ::
  "Date \<Rightarrow> collection \<Rightarrow> string \<Rightarrow> string \<Rightarrow> string \<Rightarrow> Order \<Rightarrow> error + (collection \<times> Order)" where
  "createOrder now db i userId userRestaurantId body =
     create now db i (body\<lparr>createdBy := userId, restaurantId := userRestaurantId\<rparr>)"

definition updateOrder ::
  "collection \<Rightarrow> string \<Rightarrow> string \<Rightarrow> OrderPatch \<Rightarrow> error + (collection \<times> Order option)" where
  "updateOrder db userRestaurantId paramsId body =
     (case findOne db paramsId userRestaurantId of
        None \<Rightarrow> Inl (ErrorResponse ''Order not found'' 404)
      | Some order \<Rightarrow>
          if status order = Served \<or> status order = Cancelled then
            Inl (ErrorResponse ''Cannot update served or cancelled orders'' 400)
          else findByIdAndUpdate db paramsId body)"

definition deleteOrder ::
  "collection \<Rightarrow> string \<Rightarrow> string \<Rightarrow> error + collection" where
  "deleteOrder db userRestaurantId paramsId =
     (case findOne db paramsId userRestaurantId of
        None \<Rightarrow> Inl (ErrorResponse ''Order not found'' 404)
      | Some order \<Rightarrow>
          if status order \<noteq> Pending \<and> status order \<noteq> Cancelled then
            Inl (ErrorResponse ''Can only delete pending or cancelled orders'' 400)
          else Inr (fst (findByIdAndDelete db paramsId)))"

section \<open>Order service\<close>

text \<open>
  The service functions of the same names (the second part of
  \<^verbatim>\<open>src/server/services/authService.ts\<close>), which return the response envelope instead
  of calling \<^verbatim>\<open>next\<close>: the collection afterwards, and \<open>Success\<close> with the data or
  \<open>Failure\<close> with the error code and message. \<^verbatim>\<open>mongoose.Types.ObjectId.isValid\<close>
  is taken for ids in their form of 24 hexadecimal digits, the pattern of
  \<^verbatim>\<open>commonSchemas.objectId\<close>. The \<^verbatim>\<open>catch\<close> branches answer what the library
  throws with the code of the operation and the message of the error.
\<close>

datatype 'a ApiResponse = Success 'a | Failure string string

definition isHexDigit :: "char \<Rightarrow> bool" where
  "isHexDigit c \<longleftrightarrow> c \<in> set ''0123456789abcdefABCDEF''"

definition objectIdIsValid :: "string \<Rightarrow> bool" where
  "objectIdIsValid s \<longleftrightarrow> length s = 24 \<and> list_all isHexDigit s"

definition orderService_createOrder ::
  "Date \<Rightarrow> collection \<Rightarrow> string \<Rightarrow> Order \<Rightarrow> collection \<times> Order ApiResponse" where
  "orderService_createOrder now db i orderData =
     (case create now db i orderData of
        Inl e \<Rightarrow> (db, Failure ''ORDER_CREATE_ERROR'' (errorMessage e))
      | Inr (db', order) \<Rightarrow> (db', Success order))"

definition orderService_updateOrder ::
  "collection \<Rightarrow> string \<Rightarrow> OrderPatch \<Rightarrow> collection \<times> Order ApiResponse" where
  "orderService_updateOrder db orderId updates =
     (if \<not> objectIdIsValid orderId then
        (db, Failure ''INVALID_ID'' ''Invalid order ID format'')
      else
        (case findByIdAndUpdate db orderId updates of
           Inl e \<Rightarrow> (db, Failure ''ORDER_UPDATE_ERROR'' (errorMessage e))
         | Inr (db', None) \<Rightarrow> (db', Failure ''ORDER_NOT_FOUND'' ''Order not found'')
         | Inr (db', Some order) \<Rightarrow> (db', Success order)))"

definition orderService_deleteOrder ::
  "collection \<Rightarrow> string \<Rightarrow> collection \<times> unit ApiResponse" where
  "orderService_deleteOrder db orderId =
     (if \<not> objectIdIsValid orderId then
        (db, Failure ''INVALID_ID'' ''Invalid order ID format'')
      else
        (case findByIdAndDelete db orderId of
           (db', None) \<Rightarrow> (db', Failure ''ORDER_NOT_FOUND'' ''Order not found'')
         | (db', Some order) \<Rightarrow> (db', Success ())))"

section \<open>Roles and permissions\<close>

text \<open>
  The authorization middleware (\<^verbatim>\<open>src/unnamed/part_000\<close>). A role arrives as a string
  (\<^verbatim>\<open>req.user.role\<close>), and the two static tables are object literals indexed by it.
  \<^verbatim>\<open>TABLE[key]\<close> is the entry of the key when the literal has one. For any other key
  it is \<^verbatim>\<open>undefined\<close>, except for the names that every object inherits from
  \<^verbatim>\<open>Object.prototype\<close>: for those it is the inherited function (or object), which is
  truthy, is not an array and is not a number.
\<close>

datatype 'a property = Own 'a | Inherited | Undefined

definition objectPrototypeKeys :: "string list" where
  "objectPrototypeKeys =
     [''constructor'', ''__proto__'', ''hasOwnProperty'', ''isPrototypeOf'',
      ''propertyIsEnumerable'', ''toLocaleString'', ''toString'', ''valueOf'',
      ''__defineGetter__'', ''__defineSetter__'', ''__lookupGetter__'', ''__lookupSetter__'']"

definition getProperty :: "(string \<times> 'a) list \<Rightarrow> string \<Rightarrow> 'a property" where
  "getProperty table key =
     (case map_of table key of
        Some v \<Rightarrow> Own v
      | None \<Rightarrow> if key \<in> set objectPrototypeKeys then Inherited else Undefined)"

definition ROLE_HIERARCHY :: "(string \<times> nat) list" where
  "ROLE_HIERARCHY =
     [(''customer'', 1), (''kitchen'', 2), (''waiter'', 3), (''manager'', 4), (''admin'', 5)]"

definition ROLE_PERMISSIONS :: "(string \<times> string list) list" where
  "ROLE_PERMISSIONS =
     [(''customer'', [''order:create'', ''order:view:own'', ''menu:view'', ''profile:view:own'',
        ''profile:update:own'']),
      (''kitchen'', [''order:view'', ''order:update:status'', ''kitchen:view'', ''kitchen:update'',
        ''menu:view'', ''inventory:view'']),
      (''waiter'', [''order:create'', ''order:view'', ''order:update'', ''order:delete'',
        ''table:view'', ''table:update'', ''menu:view'', ''customer:view'', ''customer:create'',
        ''payment:process'', ''inventory:view'']),
      (''manager'', [''order:*'', ''table:*'', ''menu:*'', ''customer:*'', ''payment:*'',
        ''inventory:*'', ''employee:view'', ''employee:create'', ''employee:update'',
        ''analytics:view'', ''reports:view'', ''settings:view'', ''settings:update'']),
      (''admin'', [''*''])]"

definition SENSITIVE_OPERATIONS :: "string list" where
  "SENSITIVE_OPERATIONS =
     [''user:delete'', ''payment:refund'', ''inventory:delete'', ''settings:security'',
      ''data:export'', ''system:backup'']"

text \<open>
  \<^verbatim>\<open>ROLE_PERMISSIONS[userRole] || []\<close>: the list of the role, the empty list for an
  unknown role, and \<open>None\<close> when the value is not an array (an inherited name).
  \<^verbatim>\<open>ROLE_HIERARCHY[role] || 0\<close>: the level of the role, 0 for an unknown role, and
  \<open>None\<close> when the value is not a number.
\<close>

definition rolePermissionsOf :: "string \<Rightarrow> string list option" where
  "rolePermissionsOf userRole =
     (case getProperty ROLE_PERMISSIONS userRole of
        Own ps \<Rightarrow> Some ps
      | Undefined \<Rightarrow> Some []
      | Inherited \<Rightarrow> None)"

definition roleLevelOf :: "string \<Rightarrow> nat option" where
  "roleLevelOf userRole =
     (case getProperty ROLE_HIERARCHY userRole of
        Own n \<Rightarrow> Some n
      | Undefined \<Rightarrow> Some 0
      | Inherited \<Rightarrow> None)"

text \<open>
  \<^verbatim>\<open>a < b\<close> on two such values: the order of the numbers, and false as soon as one of
  them is not a number (it converts to \<^verbatim>\<open>NaN\<close>).
\<close>

definition jsLessThan :: "nat option \<Rightarrow> nat option \<Rightarrow> bool" where
  "jsLessThan a b = (case (a, b) of (Some x, Some y) \<Rightarrow> x < y | _ \<Rightarrow> False)"

text \<open>
  \<^verbatim>\<open>const [resource] = permission.split(':')\<close>: the text before the first colon, the
  whole string when there is none.
\<close>

definition resourceOf :: "string \<Rightarrow> string" where
  "resourceOf permission = takeWhile (\<lambda>c. c \<noteq> CHR '':'') permission"

text \<open>
  \<open>hasPermission\<close> returns a boolean (\<open>Inr\<close>), or throws a \<^verbatim>\<open>TypeError\<close> (\<open>Inl\<close>)
  when \<^verbatim>\<open>rolePermissions.includes\<close> is called on a value that is not an array.
\<close>

definition hasPermission :: "string \<Rightarrow> string \<Rightarrow> string list option \<Rightarrow> string + bool" where
  "hasPermission userRole permission userPermissions =
     (if userRole = ''admin'' then Inr True
      else
        (case rolePermissionsOf userRole of
           None \<Rightarrow> Inl ''TypeError: rolePermissions.includes is not a function''
         | Some rolePermissions \<Rightarrow>
             if ''*'' \<in> set rolePermissions then Inr True
             else if permission \<in> set rolePermissions then Inr True
             else
               (let resource = resourceOf permission in
                if resource @ '':*'' \<in> set rolePermissions then Inr True
                else if (case userPermissions of
                           None \<Rightarrow> False
                         | Some ps \<Rightarrow> permission \<in> set ps) then Inr True
                else Inr False)))"

text \<open>
  \<^verbatim>\<open>req.user\<close> as the middleware reads it; a middleware either calls \<^verbatim>\<open>next()\<close> or
  answers with a status and an error code.
\<close>

record User =
  user_id :: string
  role :: string
  permissions :: "string list option"
  userRestaurantId :: string
  isActive :: bool

datatype response = Next | Json nat string

definition requireRoleLevel :: "string \<Rightarrow> User option \<Rightarrow> response" where
  "requireRoleLevel minimumRole user =
     (case user of
        None \<Rightarrow> Json 401 ''NO_USER''
      | Some u \<Rightarrow>
          (let userLevel = roleLevelOf (role u);
               requiredLevel = roleLevelOf minimumRole
           in if jsLessThan userLevel requiredLevel then Json 403 ''INSUFFICIENT_ROLE_LEVEL''
              else Next))"

section \<open>Additional authentication\<close>

text \<open>
  The middleware \<^verbatim>\<open>requireAdditionalAuth(operation)\<close>. \<open>verify\<close> is
  \<^verbatim>\<open>jwt.verify(token, JWT_SECRET)\<close>: \<open>None\<close> when it throws, the decoded claims
  otherwise. \<open>now\<close> is \<^verbatim>\<open>Date.now()\<close> in milliseconds, \<open>iat\<close> the issue time in
  seconds; a token without \<open>iat\<close> makes the age \<^verbatim>\<open>NaN\<close>, and the comparison false.
  \<open>header\<close> is \<^verbatim>\<open>req.headers['x-additional-auth']\<close>.
\<close>

record Claims =
  userId :: string
  operation :: string
  iat :: "int option"

definition tokenExpired :: "int \<Rightarrow> Claims \<Rightarrow> bool" where
  "tokenExpired now decoded =
     (case iat decoded of
        None \<Rightarrow> False
      | Some t \<Rightarrow> (let tokenAge = now - t * 1000 in tokenAge > 5 * 60 * 1000))"

definition requireAdditionalAuth ::
  "(string \<Rightarrow> Claims option) \<Rightarrow> int \<Rightarrow> string \<Rightarrow> User option \<Rightarrow> string option \<Rightarrow> response" where
  "requireAdditionalAuth verify now op user header =
     (case user of
        None \<Rightarrow> Json 401 ''NO_USER''
      | Some u \<Rightarrow>
          if op \<in> set SENSITIVE_OPERATIONS then
            (case header of
               None \<Rightarrow> Json 403 ''ADDITIONAL_AUTH_REQUIRED''
             | Some additionalAuthToken \<Rightarrow>
                 if additionalAuthToken = [] then Json 403 ''ADDITIONAL_AUTH_REQUIRED''
                 else
                   (case verify additionalAuthToken of
                      None \<Rightarrow> Json 403 ''INVALID_ADDITIONAL_AUTH''
                    | Some decoded \<Rightarrow>
                        if userId decoded \<noteq> user_id u \<or> operation decoded \<noteq> op
                        then Json 403 ''INVALID_ADDITIONAL_AUTH''
                        else if tokenExpired now decoded
                        then Json 403 ''INVALID_ADDITIONAL_AUTH''
                        else Next))
          else Next)"

text \<open>
  \<^verbatim>\<open>AuthService.requireAdditionalAuth(userId, action)\<close>
  (\<^verbatim>\<open>src/server/services/authService.ts\<close>). \<open>users\<close> is \<^verbatim>\<open>User.findById\<close>, which
  finds the user, finds nothing, or throws. The body of the \<^verbatim>\<open>try\<close> is
  \<open>additionalAuthBody\<close>; the \<^verbatim>\<open>catch\<close> turns every error into \<open>True\<close>.
\<close>

datatype 'a lookup = Found 'a | NotFound | Throws string

definition sensitiveActions :: "string list" where
  "sensitiveActions =
     [''delete_user'', ''modify_permissions'', ''access_financial_reports'',
      ''modify_system_settings'', ''export_customer_data'']"

definition additionalAuthBody :: "(string \<Rightarrow> User lookup) \<Rightarrow> string \<Rightarrow> string \<Rightarrow> string + bool" where
  "additionalAuthBody users uid action =
     (case users uid of
        Throws e \<Rightarrow> Inl e
      | NotFound \<Rightarrow> Inl ''User not found''
      | Found user \<Rightarrow>
          if action \<in> set sensitiveActions \<and> role user \<in> set [''admin'', ''manager'']
          then Inr True
          else Inr False)"

definition AuthService_requireAdditionalAuth ::
  "(string \<Rightarrow> User lookup) \<Rightarrow> string \<Rightarrow> string \<Rightarrow> bool" where
  "AuthService_requireAdditionalAuth users uid action =
     (case additionalAuthBody users uid action of
        Inl e \<Rightarrow> True
      | Inr b \<Rightarrow> b)"

section \<open>What the specification says\<close>


definition sameLocalDay :: "Date \<Rightarrow> Date \<Rightarrow> bool" where
  "sameLocalDay a b \<longleftrightarrow>
     fullYear a = fullYear b \<and> month a = month b \<and> dayOfMonth a = dayOfMonth b"

definition validTime :: "Date \<Rightarrow> bool" where
  "validTime d \<longleftrightarrow> hours d < 24 \<and> minutes d < 60 \<and> seconds d < 60 \<and> milliseconds d < 1000"

definition ordersOfDay :: "collection \<Rightarrow> string \<Rightarrow> Date \<Rightarrow> nat" where
  "ordersOfDay db rid now =
     length (filter (\<lambda>doc. restaurantId doc = rid \<and> sameLocalDay (createdAt doc) now)
               (map snd db))"

definition zeroPadded :: "nat \<Rightarrow> nat \<Rightarrow> string" where
  "zeroPadded w n = replicate (w - length (toStringNat n)) (CHR ''0'') @ toStringNat n"

definition orderNumberBySpec :: "Date \<Rightarrow> nat \<Rightarrow> string" where
  "orderNumberBySpec now n =
     zeroPadded 2 (fullYear now mod 100) @ zeroPadded 2 (month now + 1)
       @ zeroPadded 2 (dayOfMonth now) @ ''-'' @ zeroPadded 4 n"

text \<open>The roles of the type \<^verbatim>\<open>UserRole\<close>, which are the keys of both static tables.\<close>

definition userRoles :: "string list" where
  "userRoles = [''admin'', ''manager'', ''waiter'', ''kitchen'', ''customer'']"

section \<open>Example data\<close>

definition may1 :: "nat \<Rightarrow> nat \<Rightarrow> Date" where
  "may1 h m = \<lparr>fullYear = 2024, month = 4, dayOfMonth = 1, hours = h, minutes = m,
     seconds = 0, milliseconds = 0\<rparr>"

definition april30 :: Date where
  "april30 = \<lparr>fullYear = 2024, month = 3, dayOfMonth = 30, hours = 23, minutes = 59,
     seconds = 59, milliseconds = 999\<rparr>"

definition burger :: OrderItem where
  "burger = \<lparr>menuItemId = ''65f0000000000000000000aa'', name = ''burger'', price = 50,
     quantity = 2, customizations = [], itemNotes = None\<rparr>"

definition order1 :: Order where
  "order1 = \<lparr>orderNumber = ''240501-0001'', restaurantId = ''T'', tableId = None,
     customerId = None, items = [burger], subtotal = 100, tax = 10, discount = 5,
     total = 105, status = Pending, paymentStatus = PaymentPending, paymentMethod = None,
     orderNotes = None, createdBy = ''65f0000000000000000000bb'', createdAt = may1 9 15\<rparr>"

definition id1 :: string where
  "id1 = ''65f000000000000000000001''"

definition id2 :: string where
  "id2 = ''65f000000000000000000002''"

definition id3 :: string where
  "id3 = ''65f000000000000000000003''"

definition id4 :: string where
  "id4 = ''65f000000000000000000004''"

definition order2 :: Order where
  "order2 = order1\<lparr>orderNumber := ''240501-0002'', status := Served, createdAt := may1 12 0\<rparr>"

definition order3 :: Order where
  "order3 = order1\<lparr>orderNumber := ''240430-0007'', status := Ready, createdAt := april30\<rparr>"

definition order4 :: Order where
  "order4 = order1\<lparr>restaurantId := ''U'', status := Cancelled, createdAt := may1 12 30\<rparr>"

definition id5 :: string where
  "id5 = ''65f000000000000000000005''"

definition newOrder :: Order where
  "newOrder = order1\<lparr>orderNumber := []\<rparr>"

definition ordersOfMay1 :: collection where
  "ordersOfMay1 = [(id1, order1), (id2, order2), (id3, order3), (id4, order4)]"

definition manager1 :: User where
  "manager1 = \<lparr>user_id = ''65f0000000000000000000bb'', role = ''manager'', permissions = None,
     userRestaurantId = ''T'', isActive = True\<rparr>"

definition stepUpToken :: "int \<Rightarrow> Claims" where
  "stepUpToken issuedAt = \<lparr>userId = ''65f0000000000000000000bb'', operation = ''payment:refund'',
     iat = Some issuedAt\<rparr>"

section \<open>Facts about the collection\<close>

lemma map_of_replaceDoc_same:
  "map_of db i = Some d \<Longrightarrow> map_of (replaceDoc i d' db) i = Some d'"
  by (induction db) (auto split: if_splits)

lemma map_of_replaceDoc_other:
  "k \<noteq> i \<Longrightarrow> map_of (replaceDoc i d' db) k = map_of db k"
  by (induction db) auto


lemma findOne_id1: "findOne ordersOfMay1 id1 ''T'' = Some order1"
  by (simp add: findOne_def ordersOfMay1_def id1_def order1_def)


section \<open>Status transitions\<close>










lemma findOne_id3: "findOne ordersOfMay1 id3 ''T'' = Some order3"
  by (simp add: findOne_def ordersOfMay1_def id1_def id2_def id3_def order1_def order3_def)

lemma map_of_ordersOfMay1:
  "map_of ordersOfMay1 id1 = Some order1" "map_of ordersOfMay1 id2 = Some order2"
  "map_of ordersOfMay1 id3 = Some order3" "map_of ordersOfMay1 id4 = Some order4"
  by (simp_all add: ordersOfMay1_def id1_def id2_def id3_def id4_def)

lemma objectIdIsValid_ids: "objectIdIsValid id1" "objectIdIsValid id2" "objectIdIsValid id3"
  by (simp_all add: objectIdIsValid_def isHexDigit_def id1_def id2_def id3_def)

lemma trim_plain:
  "s \<noteq> [] \<Longrightarrow> \<not> isWhiteSpace (hd s) \<Longrightarrow> \<not> isWhiteSpace (last s) \<Longrightarrow> trim s = s"
proof -
  assume ne: "s \<noteq> []" and h: "\<not> isWhiteSpace (hd s)" and l: "\<not> isWhiteSpace (last s)"
  from ne h have a: "dropWhile isWhiteSpace s = s" by (cases s) simp_all
  from ne l have "dropWhile isWhiteSpace (rev s) = rev s"
    by (cases "rev s") (simp_all add: last_rev hd_rev [symmetric])
  then show ?thesis by (simp add: trim_def a)
qed

lemma castPatch_emptyPatch: "castPatch emptyPatch = emptyPatch"
  by (simp add: castPatch_def emptyPatch_def)

lemma patchFailures_emptyPatch: "patchFailures emptyPatch = []"
  by (simp add: patchFailures_def emptyPatch_def whenSet_def maxLength_def)

lemma applyPatch_emptyPatch: "applyPatch emptyPatch doc = doc"
  by (simp add: applyPatch_def emptyPatch_def orElse_def orKeep_def)

text \<open>
  A body that passes the update validators and does not take the number of another
  order is written into the order that the id names.
\<close>

lemma findByIdAndUpdate_writes:
  assumes "map_of db i = Some order" and "patchFailures (castPatch p) = []"
    and "\<forall>n. setOrderNumber (castPatch p) = Some n \<longrightarrow> \<not> numberTaken db i n"
  shows "findByIdAndUpdate db i p
           = Inr (replaceDoc i (applyPatch (castPatch p) order) db,
                  Some (applyPatch (castPatch p) order))"
  using assms by (auto simp: findByIdAndUpdate_def Let_def split: option.splits)

text \<open>A body that fails a validator is refused, and nothing is written.\<close>

lemma findByIdAndUpdate_refuses:
  assumes "patchFailures (castPatch p) \<noteq> []"
  shows "findByIdAndUpdate db i p
           = Inl (ValidationError (validationMessage ''Validation failed: '' (patchFailures (castPatch p))))"
  using assms by (simp add: findByIdAndUpdate_def Let_def)

section \<open>Updating an order\<close>



text \<open>
  A body with a status and a negative discount is refused by the validators, whatever the
  status it asks for.
\<close>

lemma updateOrder_refuses_invalid_body:
  "updateOrder ordersOfMay1 ''T'' id1 (emptyPatch\<lparr>setStatus := Some Served, setDiscount := Some (- 1)\<rparr>)
     = Inl (ValidationError ''Validation failed: discount: Discount cannot be negative'')"
  by (simp add: updateOrder_def findOne_id1 order1_def findByIdAndUpdate_def castPatch_def
      emptyPatch_def patchFailures_def whenSet_def maxLength_def minNumber_def
      validationMessage_def)

text \<open>
  The handler \<open>updateOrder\<close> refuses every body for a served or cancelled order, before
  the body is looked at, and leaves the collection as it is.
\<close>

lemma updateOrder_rejects_terminal:
  assumes "findOne db i rid = Some order" and "status order = Served \<or> status order = Cancelled"
  shows "updateOrder db rid i body
           = Inl (ErrorResponse ''Cannot update served or cancelled orders'' 400)"
  using assms by (auto simp: updateOrder_def)

text \<open>
  The service function of the same name writes the body into any order that it finds,
  whatever the status of the order.
\<close>

lemma orderService_updateOrder_any_status:
  assumes "objectIdIsValid i" and "findById db i = Some order"
    and "patchFailures (castPatch updates) = []"
    and "\<forall>n. setOrderNumber (castPatch updates) = Some n \<longrightarrow> \<not> numberTaken db i n"
  shows "orderService_updateOrder db i updates
           = (replaceDoc i (applyPatch (castPatch updates) order) db,
              Success (applyPatch (castPatch updates) order))"
  using assms(1) findByIdAndUpdate_writes [OF assms(2) [unfolded findById_def] assms(3,4)]
  by (simp add: orderService_updateOrder_def)

text \<open>
  Claim C3. Every update of a served or cancelled order is to fail and leave the order
  unchanged. The service function \<open>updateOrder\<close> has no check of the status: for the
  served order of the example it answers with success, and the collection holds the
  order with the new notes.
\<close>

theorem orderService_updateOrder_served_order:
  "findById ordersOfMay1 id2 = Some order2
   \<and> status order2 = Served
   \<and> orderService_updateOrder ordersOfMay1 id2 (emptyPatch\<lparr>setNotes := Some ''no onions''\<rparr>)
       = (replaceDoc id2 (order2\<lparr>orderNotes := Some ''no onions''\<rparr>) ordersOfMay1,
          Success (order2\<lparr>orderNotes := Some ''no onions''\<rparr>))
   \<and> findById (replaceDoc id2 (order2\<lparr>orderNotes := Some ''no onions''\<rparr>) ordersOfMay1) id2
       = Some (order2\<lparr>orderNotes := Some ''no onions''\<rparr>)
   \<and> order2\<lparr>orderNotes := Some ''no onions''\<rparr> \<noteq> order2"
proof -
  let ?updates = "emptyPatch\<lparr>setNotes := Some ''no onions''\<rparr>"
  have t: "trim ''no onions'' = ''no onions''" by (rule trim_plain) (simp_all add: isWhiteSpace_def)
  have c: "castPatch ?updates = ?updates" by (simp add: castPatch_def emptyPatch_def t)
  have v: "patchFailures (castPatch ?updates) = []"
    by (simp add: c) (simp add: patchFailures_def emptyPatch_def whenSet_def maxLength_def)
  have u: "\<forall>n. setOrderNumber (castPatch ?updates) = Some n \<longrightarrow> \<not> numberTaken ordersOfMay1 id2 n"
    by (simp add: c) (simp add: emptyPatch_def)
  have ap: "applyPatch (castPatch ?updates) order2 = order2\<lparr>orderNotes := Some ''no onions''\<rparr>"
    by (simp add: c) (simp add: applyPatch_def emptyPatch_def orElse_def orKeep_def)
  have f: "findById ordersOfMay1 id2 = Some order2" by (simp add: findById_def map_of_ordersOfMay1)
  have ne: "order2\<lparr>orderNotes := Some ''no onions''\<rparr> \<noteq> order2"
  proof
    assume "order2\<lparr>orderNotes := Some ''no onions''\<rparr> = order2"
    then have "orderNotes (order2\<lparr>orderNotes := Some ''no onions''\<rparr>) = orderNotes order2" by simp
    then show False by (simp add: order2_def order1_def)
  qed
  show ?thesis
    using ne f orderService_updateOrder_any_status [OF objectIdIsValid_ids(2) f v u]
    by (simp add: ap findById_def map_of_ordersOfMay1 map_of_replaceDoc_same)
      (simp add: order2_def)
qed

section \<open>Deleting an order\<close>

text \<open>
  The handler \<open>deleteOrder\<close> deletes an order that it finds exactly when the order is
  pending or cancelled.
\<close>

lemma deleteOrder_succeeds_iff:
  assumes "findOne db i rid = Some order"
  shows "(\<exists>db'. deleteOrder db rid i = Inr db')
           \<longleftrightarrow> status order = Pending \<or> status order = Cancelled"
  using assms by (auto simp: deleteOrder_def)

lemma deleteOrder_rejected:
  assumes "findOne db i rid = Some order" and "status order \<noteq> Pending" and "status order \<noteq> Cancelled"
  shows "deleteOrder db rid i = Inl (ErrorResponse ''Can only delete pending or cancelled orders'' 400)"
  using assms by (simp add: deleteOrder_def)

text \<open>
  The service function of the same name deletes any order that it finds, whatever the
  status of the order.
\<close>

lemma orderService_deleteOrder_any_status:
  assumes "objectIdIsValid i" and "findById db i = Some order"
  shows "orderService_deleteOrder db i = (removeDoc i db, Success ())"
  using assms by (simp add: orderService_deleteOrder_def findByIdAndDelete_def findById_def)

text \<open>
  Claim C4. Deleting succeeds only for a pending or cancelled order. The service function
  \<open>deleteOrder\<close> has no check of the status: for the ready order of the example it
  answers with success, and the order is gone from the collection.
\<close>

theorem orderService_deleteOrder_ready_order:
  "findById ordersOfMay1 id3 = Some order3
   \<and> status order3 = Ready
   \<and> orderService_deleteOrder ordersOfMay1 id3
       = ([(id1, order1), (id2, order2), (id4, order4)], Success ())
   \<and> findById [(id1, order1), (id2, order2), (id4, order4)] id3 = None"
  by (simp add: orderService_deleteOrder_def objectIdIsValid_ids findByIdAndDelete_def
      map_of_ordersOfMay1 findById_def)
    (simp add: ordersOfMay1_def order3_def id1_def id2_def id3_def id4_def)

section \<open>Totals\<close>

text \<open>
  What the second pre-save hook does when a document is saved: the total is the subtotal
  plus the tax minus the discount, with no lower bound, and the subtotal is the sum over
  the items when the items were modified.
\<close>

lemma foldl_sum: "foldl (\<lambda>sum item. sum + f item) a xs = a + sum_list (map f xs)"
  by (induction xs arbitrary: a) (simp_all add: add.assoc)

lemma preSaveTotal_total:
  assumes "''items'' \<in> m \<or> ''subtotal'' \<in> m \<or> ''tax'' \<in> m \<or> ''discount'' \<in> m"
  shows "total (preSaveTotal m doc)
           = subtotal (preSaveTotal m doc) + tax (preSaveTotal m doc) - discount (preSaveTotal m doc)"
  using assms by (auto simp: preSaveTotal_def Let_def)

lemma preSaveTotal_subtotal:
  assumes "''items'' \<in> m"
  shows "subtotal (preSaveTotal m doc) = (\<Sum>item\<leftarrow>items doc. price item * quantity item)"
  using assms by (simp add: preSaveTotal_def Let_def foldl_sum)

lemma preSaveTotal_negative:
  "total (preSaveTotal {''discount''} (order1\<lparr>discount := 200\<rparr>)) = - 90"
  by (simp add: preSaveTotal_def order1_def)

text \<open>
  Claim C2. The total is to be recomputed whenever the discount of an order changes and the
  order is persisted. Both \<open>updateOrder\<close> functions persist through
  \<^verbatim>\<open>findByIdAndUpdate\<close>, for which the hook does not run: changing the discount of
  the example order (subtotal 100, tax 10, total 105) from 5 to 20 stores the new
  discount with the total still 105, where subtotal plus tax minus discount is 90.
\<close>

theorem updateOrder_discount_keeps_total:
  "findOne ordersOfMay1 id1 ''T'' = Some order1
   \<and> subtotal order1 = 100 \<and> tax order1 = 10 \<and> discount order1 = 5 \<and> total order1 = 105
   \<and> updateOrder ordersOfMay1 ''T'' id1 (emptyPatch\<lparr>setDiscount := Some 20\<rparr>)
       = Inr (replaceDoc id1 (order1\<lparr>discount := 20\<rparr>) ordersOfMay1, Some (order1\<lparr>discount := 20\<rparr>))
   \<and> orderService_updateOrder ordersOfMay1 id1 (emptyPatch\<lparr>setDiscount := Some 20\<rparr>)
       = (replaceDoc id1 (order1\<lparr>discount := 20\<rparr>) ordersOfMay1, Success (order1\<lparr>discount := 20\<rparr>))
   \<and> findById (replaceDoc id1 (order1\<lparr>discount := 20\<rparr>) ordersOfMay1) id1
       = Some (order1\<lparr>discount := 20\<rparr>)
   \<and> total (order1\<lparr>discount := 20\<rparr>) = 105
   \<and> subtotal (order1\<lparr>discount := 20\<rparr>) + tax (order1\<lparr>discount := 20\<rparr>)
       - discount (order1\<lparr>discount := 20\<rparr>) = 90"
proof -
  let ?body = "emptyPatch\<lparr>setDiscount := Some 20\<rparr>"
  have c: "castPatch ?body = ?body" by (simp add: castPatch_def emptyPatch_def)
  have v: "patchFailures (castPatch ?body) = []"
    by (simp add: c)
      (simp add: patchFailures_def emptyPatch_def whenSet_def maxLength_def minNumber_def)
  have u: "\<forall>n. setOrderNumber (castPatch ?body) = Some n \<longrightarrow> \<not> numberTaken ordersOfMay1 id1 n"
    by (simp add: c) (simp add: emptyPatch_def)
  have ap: "applyPatch (castPatch ?body) order1 = order1\<lparr>discount := 20\<rparr>"
    by (simp add: c) (simp add: applyPatch_def emptyPatch_def orElse_def orKeep_def)
  have st: "status order1 = Pending" by (simp add: order1_def)
  have f: "findById ordersOfMay1 id1 = Some order1" by (simp add: findById_def map_of_ordersOfMay1)
  have w: "findByIdAndUpdate ordersOfMay1 id1 ?body
             = Inr (replaceDoc id1 (order1\<lparr>discount := 20\<rparr>) ordersOfMay1,
                    Some (order1\<lparr>discount := 20\<rparr>))"
    using findByIdAndUpdate_writes [OF map_of_ordersOfMay1(1) v u] by (simp add: ap)
  show ?thesis
    using orderService_updateOrder_any_status [OF objectIdIsValid_ids(1) f v u]
    by (simp add: updateOrder_def findOne_id1 st w ap findById_def map_of_ordersOfMay1
        map_of_replaceDoc_same)
      (simp add: order1_def)
qed

section \<open>Order numbers\<close>

lemma todayQuery_sameLocalDay:
  assumes "validTime (createdAt doc)"
  shows "todayQuery now rid doc \<longleftrightarrow> restaurantId doc = rid \<and> sameLocalDay (createdAt doc) now"
proof -
  have "timeOfDay (createdAt doc) \<le> 86399999"
    using assms by (simp add: validTime_def timeOfDay_def)
  then show ?thesis
    by (auto simp: todayQuery_def dateLe_def setHours_def sameLocalDay_def timeOfDay_def)
qed

lemma countDocuments_today:
  assumes "\<forall>d \<in> snd ` set db. validTime (createdAt d)"
  shows "countDocuments db (todayQuery now rid) = ordersOfDay db rid now"
proof -
  have "filter (todayQuery now rid) (map snd db)
          = filter (\<lambda>doc. restaurantId doc = rid \<and> sameLocalDay (createdAt doc) now) (map snd db)"
    using assms by (intro filter_cong refl) (auto simp: todayQuery_sameLocalDay)
  then show ?thesis by (simp add: countDocuments_def ordersOfDay_def)
qed

lemma padStart_zeroPadded: "padStart w (CHR ''0'') (toStringNat n) = zeroPadded w n"
  by (simp add: padStart_def zeroPadded_def)

lemma toStringNat_small: "n < 10 \<Longrightarrow> toStringNat n = [digitChar n]"
  by (simp add: toStringNat.simps)

lemma toStringNat_large:
  "10 \<le> n \<Longrightarrow> toStringNat n = toStringNat (n div 10) @ [digitChar (n mod 10)]"
  by (subst toStringNat.simps) simp

lemma toStringNat_last: "toStringNat n \<noteq> [] \<and> last (toStringNat n) = digitChar (n mod 10)"
  by (cases "n < 10") (simp_all add: toStringNat_small toStringNat_large)

lemma sliceLast_two: "xs \<noteq> [] \<Longrightarrow> sliceLast 2 (xs @ [c]) = [last xs, c]"
proof -
  assume "xs \<noteq> []"
  then obtain ys y where xs: "xs = ys @ [y]" by (metis append_butlast_last_id)
  show ?thesis by (simp add: xs sliceLast_def)
qed

lemma digitChar_0: "digitChar 0 = CHR ''0''"
  by (simp add: digitChar_def)

lemma zeroPadded_two:
  assumes "n < 100"
  shows "zeroPadded 2 n = [digitChar (n div 10), digitChar (n mod 10)]"
proof (cases "n < 10")
  case True
  then show ?thesis by (simp add: zeroPadded_def toStringNat_small digitChar_0)
next
  case False
  then have "n div 10 < 10" using assms by simp
  with False show ?thesis
    by (simp add: zeroPadded_def toStringNat_large toStringNat_small)
qed

lemma year_two_digits:
  assumes "10 \<le> y"
  shows "sliceLast 2 (toStringNat y) = zeroPadded 2 (y mod 100)"
proof -
  have s: "toStringNat y = toStringNat (y div 10) @ [digitChar (y mod 10)]"
    using assms by (rule toStringNat_large)
  have ne: "toStringNat (y div 10) \<noteq> []" and la: "last (toStringNat (y div 10)) = digitChar (y div 10 mod 10)"
    using toStringNat_last [of "y div 10"] by blast+
  have "sliceLast 2 (toStringNat y) = [last (toStringNat (y div 10)), digitChar (y mod 10)]"
    unfolding s by (rule sliceLast_two [OF ne])
  then have l: "sliceLast 2 (toStringNat y) = [digitChar (y div 10 mod 10), digitChar (y mod 10)]"
    by (simp only: la)
  have e: "y mod 100 = 10 * (y div 10 mod 10) + y mod 10"
    using mod_mult2_eq [of y 10 10] by simp
  have d: "y mod 100 div 10 = y div 10 mod 10" by (simp add: e)
  have m: "y mod 100 mod 10 = y mod 10" by (simp add: e)
  have "y mod 100 < 100" by simp
  then have "zeroPadded 2 (y mod 100) = [digitChar (y mod 100 div 10), digitChar (y mod 100 mod 10)]"
    by (rule zeroPadded_two)
  then show ?thesis by (simp only: l d m)
qed

text \<open>
  What the first pre-save hook computes when it is reached with a new document that has
  no number, at \<open>now\<close> (a date whose year has at least two digits): two digits of the
  year, of the month counted from 1 and of the day, a hyphen, and one more than the
  number of orders of the same restaurant already created on the same local day, padded
  with zeros to four digits. The dates held in the collection are times of day in range.
\<close>

lemma preSaveOrderNumber_format:
  assumes "orderNumber doc = []" and "10 \<le> fullYear now"
    and "\<forall>d \<in> snd ` set db. validTime (createdAt d)"
  shows "orderNumber (preSaveOrderNumber now db True doc)
           = orderNumberBySpec now (ordersOfDay db (restaurantId doc) now + 1)"
  using assms(1)
  by (simp add: Let_def preSaveOrderNumber_def padStart_zeroPadded
      year_two_digits [OF assms(2)] countDocuments_today [OF assms(3)] orderNumberBySpec_def)

lemma validTime_ordersOfMay1: "\<forall>d \<in> snd ` set ordersOfMay1. validTime (createdAt d)"
  by (simp add: ordersOfMay1_def order1_def order2_def order3_def order4_def validTime_def
      may1_def april30_def)

lemma ordersOfDay_may1: "ordersOfDay ordersOfMay1 ''T'' (may1 13 0) = 2"
  by (simp add: ordersOfDay_def ordersOfMay1_def order1_def order2_def order3_def order4_def
      sameLocalDay_def may1_def april30_def)

lemma orderNumberBySpec_may1: "orderNumberBySpec (may1 13 0) 3 = ''240501-0003''"
proof -
  have "zeroPadded 4 3 = ''0003''"
    by (simp add: zeroPadded_def toStringNat_small digitChar_def numeral_3_eq_3)
  then show ?thesis
    by (simp add: orderNumberBySpec_def zeroPadded_two may1_def digitChar_def)
qed

lemma preSaveOrderNumber_may1:
  "orderNumber (preSaveOrderNumber (may1 13 0) ordersOfMay1 True newOrder) = ''240501-0003''"
proof -
  have a: "orderNumber newOrder = []" by (simp add: newOrder_def)
  have b: "10 \<le> fullYear (may1 13 0)" by (simp add: may1_def)
  have r: "restaurantId newOrder = ''T''" by (simp add: newOrder_def order1_def)
  from preSaveOrderNumber_format [OF a b validTime_ordersOfMay1]
  show ?thesis by (simp add: r ordersOfDay_may1 orderNumberBySpec_may1)
qed

text \<open>
  A document that is not new, or that already has a number, keeps what it has.
\<close>

lemma preSaveOrderNumber_keeps:
  "\<not> isNew \<or> orderNumber doc \<noteq> [] \<Longrightarrow> preSaveOrderNumber now db isNew doc = doc"
  by (auto simp: preSaveOrderNumber_def)

text \<open>
  The first persist of a new order. The number is required by the schema, and the
  validation comes before the hooks: data without a number are refused, and the hook's
  branch that makes a number is never reached. When the creation succeeds, the number
  stored is the one that the data carried.
\<close>

lemma documentFailures_missing_number:
  "orderNumber doc = [] \<Longrightarrow>
     \<exists>rest. documentFailures doc = (''orderNumber'', ''Order number is required'') # rest"
  by (simp add: documentFailures_def requiredString_def)

lemma create_refuses_missing_number:
  assumes "trim (orderNumber data) = []"
  shows "\<exists>msg. create now db i data = Inl (ValidationError msg)"
proof -
  have "orderNumber (castOrder data) = []" using assms by (simp add: castOrder_def)
  then obtain rest where
    "documentFailures (castOrder data) = (''orderNumber'', ''Order number is required'') # rest"
    using documentFailures_missing_number by blast
  then show ?thesis by (simp add: create_def Let_def)
qed

lemma orderNumber_preSaveTotal: "orderNumber (preSaveTotal m doc) = orderNumber doc"
  by (simp add: preSaveTotal_def Let_def)

lemma create_never_assigns:
  assumes "create now db i data = Inr (db', doc)"
  shows "orderNumber doc = trim (orderNumber data) \<and> orderNumber doc \<noteq> []"
proof -
  have ok: "documentFailures (castOrder data) = []"
    using assms by (auto simp: create_def Let_def split: if_splits)
  have ne: "orderNumber (castOrder data) \<noteq> []"
  proof
    assume "orderNumber (castOrder data) = []"
    then obtain rest where
      "documentFailures (castOrder data) = (''orderNumber'', ''Order number is required'') # rest"
      using documentFailures_missing_number by blast
    with ok show False by simp
  qed
  then have k: "preSaveOrderNumber now db True (castOrder data) = castOrder data"
    by (simp add: preSaveOrderNumber_keeps)
  have "orderNumber doc = orderNumber (castOrder data)"
    using assms ok by (auto simp: create_def Let_def k orderNumber_preSaveTotal split: if_splits)
  then show ?thesis using ne by (simp add: castOrder_def)
qed

lemma trim_burger: "castItem burger = burger"
proof -
  have "trim ''burger'' = ''burger''" by (rule trim_plain) (simp_all add: isWhiteSpace_def)
  then show ?thesis by (simp add: castItem_def burger_def)
qed

lemma documentFailures_newOrder:
  "documentFailures (castOrder newOrder) = [(''orderNumber'', ''Order number is required'')]"
  by (simp add: castOrder_def newOrder_def order1_def trim_burger trim_def)
    (simp add: documentFailures_def requiredString_def itemsFailures_def itemFailures_def
      minNumber_def maxLength_def burger_def)

text \<open>
  Claim C5. The third order of restaurant \<open>T\<close> on 2024-05-01 is to get the number
  \<open>240501-0003\<close> on its first persist. With two orders of that restaurant and day in the
  collection, creating an order without a number is refused by the validation with
  \<open>Order number is required\<close>, in the handler and in the service function, and nothing
  is stored; the hook, had it been reached, would have made \<open>240501-0003\<close>. Created with a
  number of the caller's, the order is stored with that number.
\<close>

theorem createOrder_without_number_refused:
  "orderNumber newOrder = []
   \<and> ordersOfDay ordersOfMay1 ''T'' (may1 13 0) = 2
   \<and> createOrder (may1 13 0) ordersOfMay1 id5 ''65f0000000000000000000bb'' ''T'' newOrder
       = Inl (ValidationError ''Order validation failed: orderNumber: Order number is required'')
   \<and> orderService_createOrder (may1 13 0) ordersOfMay1 id5 newOrder
       = (ordersOfMay1,
          Failure ''ORDER_CREATE_ERROR''
            ''Order validation failed: orderNumber: Order number is required'')
   \<and> orderNumber (preSaveOrderNumber (may1 13 0) ordersOfMay1 True newOrder) = ''240501-0003''
   \<and> createOrder (may1 13 0) ordersOfMay1 id5 ''65f0000000000000000000bb'' ''T''
         (newOrder\<lparr>orderNumber := ''A-17''\<rparr>)
       = Inr (ordersOfMay1 @ [(id5, order1\<lparr>orderNumber := ''A-17'', createdAt := may1 13 0\<rparr>)],
              order1\<lparr>orderNumber := ''A-17'', createdAt := may1 13 0\<rparr>)"
proof (intro conjI)
  show "orderNumber newOrder = []" by (simp add: newOrder_def)
  show "ordersOfDay ordersOfMay1 ''T'' (may1 13 0) = 2" by (rule ordersOfDay_may1)
  have same: "newOrder\<lparr>createdBy := ''65f0000000000000000000bb'', restaurantId := ''T''\<rparr> = newOrder"
    by (simp add: newOrder_def order1_def)
  have refused: "create (may1 13 0) ordersOfMay1 id5 newOrder
       = Inl (ValidationError ''Order validation failed: orderNumber: Order number is required'')"
    by (simp add: create_def Let_def documentFailures_newOrder validationMessage_def)
  show "createOrder (may1 13 0) ordersOfMay1 id5 ''65f0000000000000000000bb'' ''T'' newOrder
       = Inl (ValidationError ''Order validation failed: orderNumber: Order number is required'')"
    by (simp add: createOrder_def same refused)
  show "orderService_createOrder (may1 13 0) ordersOfMay1 id5 newOrder
       = (ordersOfMay1,
          Failure ''ORDER_CREATE_ERROR''
            ''Order validation failed: orderNumber: Order number is required'')"
    by (simp add: orderService_createOrder_def refused)
  show "orderNumber (preSaveOrderNumber (may1 13 0) ordersOfMay1 True newOrder) = ''240501-0003''"
    by (rule preSaveOrderNumber_may1)
  have t: "trim ''A-17'' = ''A-17''" by (rule trim_plain) (simp_all add: isWhiteSpace_def)
  have c: "castOrder (order1\<lparr>orderNumber := ''A-17''\<rparr>) = order1\<lparr>orderNumber := ''A-17''\<rparr>"
    by (simp add: castOrder_def t) (simp add: order1_def trim_burger)
  have v: "documentFailures (order1\<lparr>orderNumber := ''A-17''\<rparr>) = []"
    by (simp add: documentFailures_def requiredString_def itemsFailures_def itemFailures_def
        minNumber_def maxLength_def order1_def burger_def)
  have free: "\<not> numberTaken ordersOfMay1 id5 ''A-17''"
    by (simp add: numberTaken_def ordersOfMay1_def order1_def order2_def order3_def order4_def)
  have h: "preSaveTotal allPaths (order1\<lparr>orderNumber := ''A-17''\<rparr>) = order1\<lparr>orderNumber := ''A-17''\<rparr>"
    by (simp add: preSaveTotal_def allPaths_def order1_def burger_def)
  have "create (may1 13 0) ordersOfMay1 id5 (order1\<lparr>orderNumber := ''A-17''\<rparr>)
       = Inr (ordersOfMay1 @ [(id5, order1\<lparr>orderNumber := ''A-17'', createdAt := may1 13 0\<rparr>)],
              order1\<lparr>orderNumber := ''A-17'', createdAt := may1 13 0\<rparr>)"
    by (simp add: create_def Let_def c v preSaveOrderNumber_def h free)
  moreover have "newOrder\<lparr>orderNumber := ''A-17'', createdBy := ''65f0000000000000000000bb'',
      restaurantId := ''T''\<rparr> = order1\<lparr>orderNumber := ''A-17''\<rparr>"
    by (simp add: newOrder_def order1_def)
  ultimately show "createOrder (may1 13 0) ordersOfMay1 id5 ''65f0000000000000000000bb'' ''T''
         (newOrder\<lparr>orderNumber := ''A-17''\<rparr>)
       = Inr (ordersOfMay1 @ [(id5, order1\<lparr>orderNumber := ''A-17'', createdAt := may1 13 0\<rparr>)],
              order1\<lparr>orderNumber := ''A-17'', createdAt := may1 13 0\<rparr>)"
    by (simp add: createOrder_def)
qed

section \<open>Permissions\<close>

lemma resourceOf_no_colon: "CHR '':'' \<notin> set p \<Longrightarrow> resourceOf p = p"
  by (auto simp: resourceOf_def takeWhile_eq_all_conv)

lemma rolePermissionsOf_manager:
  "rolePermissionsOf ''manager'' = Some [''order:*'', ''table:*'', ''menu:*'', ''customer:*'',
        ''payment:*'', ''inventory:*'', ''employee:view'', ''employee:create'', ''employee:update'',
        ''analytics:view'', ''reports:view'', ''settings:view'', ''settings:update'']"
  by (simp add: rolePermissionsOf_def getProperty_def ROLE_PERMISSIONS_def)

lemma rolePermissionsOf_waiter:
  "rolePermissionsOf ''waiter'' = Some [''order:create'', ''order:view'', ''order:update'',
        ''order:delete'', ''table:view'', ''table:update'', ''menu:view'', ''customer:view'',
        ''customer:create'', ''payment:process'', ''inventory:view'']"
  by (simp add: rolePermissionsOf_def getProperty_def ROLE_PERMISSIONS_def)

lemma rolePermissionsOf_admin: "rolePermissionsOf ''admin'' = Some [''*'']"
  by (simp add: rolePermissionsOf_def getProperty_def ROLE_PERMISSIONS_def)

text \<open>
  The permission \<open>order\<close> has no colon, and a manager has it through the entry
  \<open>order:*\<close> alone: not as admin, not by \<open>*\<close>, not by an exact match in the role's
  list, and there are no extra permissions.
\<close>

theorem hasPermission_no_colon_counterexample:
  "CHR '':'' \<notin> set ''order''
   \<and> hasPermission ''manager'' ''order'' None = Inr True
   \<and> ''manager'' \<noteq> ''admin''
   \<and> rolePermissionsOf ''manager'' = Some [''order:*'', ''table:*'', ''menu:*'', ''customer:*'',
        ''payment:*'', ''inventory:*'', ''employee:view'', ''employee:create'', ''employee:update'',
        ''analytics:view'', ''reports:view'', ''settings:view'', ''settings:update'']
   \<and> ''*'' \<notin> set [''order:*'', ''table:*'', ''menu:*'', ''customer:*'',
        ''payment:*'', ''inventory:*'', ''employee:view'', ''employee:create'', ''employee:update'',
        ''analytics:view'', ''reports:view'', ''settings:view'', ''settings:update'']
   \<and> ''order'' \<notin> set [''order:*'', ''table:*'', ''menu:*'', ''customer:*'',
        ''payment:*'', ''inventory:*'', ''employee:view'', ''employee:create'', ''employee:update'',
        ''analytics:view'', ''reports:view'', ''settings:view'', ''settings:update'']"
  by (simp add: hasPermission_def rolePermissionsOf_manager resourceOf_def)

text \<open>
  Claim C8, amended. For a permission without a colon the resource is the whole string, and
  the check for a wildcard on the resource is made with it: with \<open>rolePermissions\<close> the
  permission list of the role, \<open>hasPermission\<close> is true exactly by the admin rule, by
  \<open>*\<close> in the list, by an exact match in the list, by the entry made of the permission
  followed by \<open>:*\<close> in the list, or by an exact match in the extra permissions.
\<close>

theorem hasPermission_no_colon:
  assumes "CHR '':'' \<notin> set permission"
    and "rolePermissionsOf userRole = Some rolePermissions"
  shows "hasPermission userRole permission userPermissions =
           Inr (userRole = ''admin''
                \<or> ''*'' \<in> set rolePermissions
                \<or> permission \<in> set rolePermissions
                \<or> permission @ '':*'' \<in> set rolePermissions
                \<or> (\<exists>ps. userPermissions = Some ps \<and> permission \<in> set ps))"
  using assms
  by (auto simp: hasPermission_def resourceOf_no_colon Let_def split: option.splits)

theorem hasPermission_no_colon_witness:
  "CHR '':'' \<notin> set ''order''
   \<and> hasPermission ''manager'' ''order'' None = Inr True
   \<and> hasPermission ''waiter'' ''order'' None = Inr False
   \<and> hasPermission ''waiter'' ''order'' (Some [''order'']) = Inr True
   \<and> hasPermission ''admin'' ''order'' None = Inr True"
proof -
  have a: "CHR '':'' \<notin> set ''order''" by simp
  from hasPermission_no_colon [OF a rolePermissionsOf_manager, of None]
    hasPermission_no_colon [OF a rolePermissionsOf_waiter, of None]
    hasPermission_no_colon [OF a rolePermissionsOf_waiter, of "Some [''order'']"]
    hasPermission_no_colon [OF a rolePermissionsOf_admin, of None]
  show ?thesis by simp
qed

lemma unknown_role_permissions:
  "r \<notin> set userRoles \<Longrightarrow> r \<notin> set objectPrototypeKeys \<Longrightarrow> rolePermissionsOf r = Some []"
  by (simp add: userRoles_def rolePermissionsOf_def getProperty_def ROLE_PERMISSIONS_def)

lemma unknown_role_level:
  "r \<notin> set userRoles \<Longrightarrow> r \<notin> set objectPrototypeKeys \<Longrightarrow> roleLevelOf r = Some 0"
  by (simp add: userRoles_def roleLevelOf_def getProperty_def ROLE_HIERARCHY_def)

lemma known_role_level: "m \<in> set userRoles \<Longrightarrow> \<exists>n. roleLevelOf m = Some n \<and> 0 < n"
  by (auto simp: userRoles_def roleLevelOf_def getProperty_def ROLE_HIERARCHY_def)

lemma role_tables_keys:
  "set (map fst ROLE_PERMISSIONS) = set userRoles" "set (map fst ROLE_HIERARCHY) = set userRoles"
  by (auto simp: userRoles_def ROLE_PERMISSIONS_def ROLE_HIERARCHY_def)

text \<open>
  A role that is in neither table passes the permission check for a permission that is
  among its extra permissions. And a role named like a property that the tables inherit
  does not resolve to an empty list or to level 0: the permission check throws, and the
  level check lets the request pass.
\<close>

theorem unknown_role_counterexample:
  "''ghost'' \<notin> set userRoles
   \<and> rolePermissionsOf ''ghost'' = Some []
   \<and> hasPermission ''ghost'' ''order:view'' (Some [''order:view'']) = Inr True
   \<and> ''constructor'' \<notin> set userRoles
   \<and> rolePermissionsOf ''constructor'' = None
   \<and> roleLevelOf ''constructor'' = None
   \<and> hasPermission ''constructor'' ''order:view'' None
       = Inl ''TypeError: rolePermissions.includes is not a function''
   \<and> requireRoleLevel ''admin'' (Some (manager1\<lparr>role := ''constructor''\<rparr>)) = Next"
  by (simp add: hasPermission_def requireRoleLevel_def jsLessThan_def rolePermissionsOf_def
      roleLevelOf_def getProperty_def ROLE_PERMISSIONS_def ROLE_HIERARCHY_def userRoles_def
      objectPrototypeKeys_def resourceOf_def)

text \<open>
  Claim C9, amended. For a role outside the static tables (and not a name that the tables
  inherit from \<^verbatim>\<open>Object.prototype\<close>) the list of role permissions is empty and the
  level is 0; the level check fails against every minimum role of the tables; and the
  permission check succeeds exactly when the extra permissions contain the requested
  permission, so it fails for every permission when there are none.
\<close>

theorem unknown_role:
  assumes "r \<notin> set userRoles" and "r \<notin> set objectPrototypeKeys"
  shows "rolePermissionsOf r = Some [] \<and> roleLevelOf r = Some 0
       \<and> hasPermission r permission extra
           = Inr (\<exists>ps. extra = Some ps \<and> permission \<in> set ps)
       \<and> (\<forall>m \<in> set userRoles.
            requireRoleLevel m (Some (u\<lparr>role := r\<rparr>)) = Json 403 ''INSUFFICIENT_ROLE_LEVEL'')"
proof (intro conjI ballI)
  show "rolePermissionsOf r = Some []" by (rule unknown_role_permissions [OF assms])
  show "roleLevelOf r = Some 0" by (rule unknown_role_level [OF assms])
  have "r \<noteq> ''admin''" using assms(1) by (auto simp: userRoles_def)
  then show "hasPermission r permission extra
               = Inr (\<exists>ps. extra = Some ps \<and> permission \<in> set ps)"
    by (auto simp: hasPermission_def unknown_role_permissions [OF assms] split: option.splits)
next
  fix m assume "m \<in> set userRoles"
  then obtain n where "roleLevelOf m = Some n" "0 < n" using known_role_level by blast
  then show "requireRoleLevel m (Some (u\<lparr>role := r\<rparr>)) = Json 403 ''INSUFFICIENT_ROLE_LEVEL''"
    by (simp add: requireRoleLevel_def jsLessThan_def unknown_role_level [OF assms])
qed

theorem unknown_role_witness:
  "''ghost'' \<notin> set userRoles \<and> ''ghost'' \<notin> set objectPrototypeKeys
   \<and> rolePermissionsOf ''ghost'' = Some [] \<and> roleLevelOf ''ghost'' = Some 0
   \<and> hasPermission ''ghost'' ''order:view'' None = Inr False
   \<and> hasPermission ''ghost'' ''order:view'' (Some [''menu:view'']) = Inr False
   \<and> hasPermission ''ghost'' ''order:view'' (Some [''order:view'']) = Inr True
   \<and> requireRoleLevel ''customer'' (Some (manager1\<lparr>role := ''ghost''\<rparr>))
       = Json 403 ''INSUFFICIENT_ROLE_LEVEL''"
proof -
  have a: "''ghost'' \<notin> set userRoles" by (simp add: userRoles_def)
  have b: "''ghost'' \<notin> set objectPrototypeKeys" by (simp add: objectPrototypeKeys_def)
  have c: "''customer'' \<in> set userRoles" by (simp add: userRoles_def)
  from unknown_role [OF a b, of "''order:view''" None manager1]
    unknown_role [OF a b, of "''order:view''" "Some [''menu:view'']" manager1]
    unknown_role [OF a b, of "''order:view''" "Some [''order:view'']" manager1] a b c
  show ?thesis by simp
qed

section \<open>Additional authentication\<close>

text \<open>
  Claim C6. For a sensitive operation and a caller who presents a token that verifies, is
  bound to the caller and to the operation and carries its issue time, the middleware
  answers 403 with \<open>INVALID_ADDITIONAL_AUTH\<close> when more than 300 seconds (300000
  milliseconds) have passed since the issue time, and calls \<open>next\<close> otherwise.
\<close>

theorem requireAdditionalAuth_token_age:
  assumes "op \<in> set SENSITIVE_OPERATIONS" and "tok \<noteq> []" and "verify tok = Some decoded"
    and "userId decoded = user_id u" and "operation decoded = op" and "iat decoded = Some t"
  shows "requireAdditionalAuth verify now op (Some u) (Some tok)
           = (if now - t * 1000 > 300 * 1000 then Json 403 ''INVALID_ADDITIONAL_AUTH'' else Next)"
  using assms by (simp add: requireAdditionalAuth_def tokenExpired_def)

text \<open>A token issued 301 seconds ago is refused, one issued 299 seconds ago is accepted.\<close>

theorem requireAdditionalAuth_token_age_witness:
  "''payment:refund'' \<in> set SENSITIVE_OPERATIONS
   \<and> userId (stepUpToken 1700000000) = user_id manager1
   \<and> operation (stepUpToken 1700000000) = ''payment:refund''
   \<and> requireAdditionalAuth (\<lambda>tok. if tok = ''signed'' then Some (stepUpToken 1700000000) else None)
        1700000301000 ''payment:refund'' (Some manager1) (Some ''signed'')
       = Json 403 ''INVALID_ADDITIONAL_AUTH''
   \<and> requireAdditionalAuth (\<lambda>tok. if tok = ''signed'' then Some (stepUpToken 1700000000) else None)
        1700000299000 ''payment:refund'' (Some manager1) (Some ''signed'')
       = Next"
proof -
  let ?verify = "\<lambda>tok. if tok = ''signed'' then Some (stepUpToken 1700000000) else None"
  have a: "''payment:refund'' \<in> set SENSITIVE_OPERATIONS" by (simp add: SENSITIVE_OPERATIONS_def)
  have b: "''signed'' \<noteq> []" by simp
  have c: "?verify ''signed'' = Some (stepUpToken 1700000000)" by simp
  have d: "userId (stepUpToken 1700000000) = user_id manager1"
    by (simp add: stepUpToken_def manager1_def)
  have e: "operation (stepUpToken 1700000000) = ''payment:refund''" by (simp add: stepUpToken_def)
  have f: "iat (stepUpToken 1700000000) = Some 1700000000" by (simp add: stepUpToken_def)
  from requireAdditionalAuth_token_age
      [where verify = ?verify and now = 1700000301000, OF a b c d e f]
    requireAdditionalAuth_token_age
      [where verify = ?verify and now = 1700000299000, OF a b c d e f]
  show ?thesis using a d e by simp
qed

text \<open>
  Claim C7. When the user is found, \<open>AuthService.requireAdditionalAuth\<close> is true exactly
  when the action is one of the sensitive actions and the user's role is admin or
  manager; when the lookup finds no user or throws, it is true for every action.
\<close>

theorem AuthService_requireAdditionalAuth_fail_safe:
  "(users uid = Found user \<longrightarrow>
      AuthService_requireAdditionalAuth users uid action
        = (action \<in> set sensitiveActions \<and> (role user = ''admin'' \<or> role user = ''manager'')))
   \<and> (users uid = NotFound \<or> (\<exists>e. users uid = Throws e) \<longrightarrow>
        AuthService_requireAdditionalAuth users uid action = True)"
proof (intro conjI impI)
  assume "users uid = Found user"
  then have "additionalAuthBody users uid action
               = Inr (action \<in> set sensitiveActions
                      \<and> (role user = ''admin'' \<or> role user = ''manager''))"
    by (simp add: additionalAuthBody_def)
  then show "AuthService_requireAdditionalAuth users uid action
               = (action \<in> set sensitiveActions
                  \<and> (role user = ''admin'' \<or> role user = ''manager''))"
    by (simp add: AuthService_requireAdditionalAuth_def)
next
  assume "users uid = NotFound \<or> (\<exists>e. users uid = Throws e)"
  then obtain e where "additionalAuthBody users uid action = Inl e"
    by (auto simp: additionalAuthBody_def)
  then show "AuthService_requireAdditionalAuth users uid action = True"
    by (simp add: AuthService_requireAdditionalAuth_def)
qed

theorem AuthService_requireAdditionalAuth_fail_safe_witness:
  "AuthService_requireAdditionalAuth (\<lambda>i. Found manager1) ''u1'' ''delete_user'' = True
   \<and> AuthService_requireAdditionalAuth (\<lambda>i. Found manager1) ''u1'' ''view_menu'' = False
   \<and> AuthService_requireAdditionalAuth (\<lambda>i. Found (manager1\<lparr>role := ''waiter''\<rparr>)) ''u1'' ''delete_user'' = False
   \<and> AuthService_requireAdditionalAuth (\<lambda>i. NotFound) ''u1'' ''view_menu'' = True
   \<and> AuthService_requireAdditionalAuth (\<lambda>i. Throws ''connection lost'') ''u1'' ''view_menu'' = True"
  using AuthService_requireAdditionalAuth_fail_safe [of "\<lambda>i. Found manager1" "''u1''" manager1 "''delete_user''"]
    AuthService_requireAdditionalAuth_fail_safe [of "\<lambda>i. Found manager1" "''u1''" manager1 "''view_menu''"]
    AuthService_requireAdditionalAuth_fail_safe [of "\<lambda>i. Found (manager1\<lparr>role := ''waiter''\<rparr>)" "''u1''" "manager1\<lparr>role := ''waiter''\<rparr>" "''delete_user''"]
    AuthService_requireAdditionalAuth_fail_safe [of "\<lambda>i. NotFound" "''u1''" manager1 "''view_menu''"]
    AuthService_requireAdditionalAuth_fail_safe [of "\<lambda>i. Throws ''connection lost''" "''u1''" manager1 "''view_menu''"]
  by (simp add: sensitiveActions_def manager1_def)

end
